theory Spec2Isabelle
  imports Main
begin

section \<open>JavaScript values, objects and the store\<close>

text \<open>
  A value is a primitive or a reference to an object of the store. Numbers stand for
  themselves only (the methods below never compute with them), so they are integers here.
\<close>

datatype jsval = JUndefined | JNull | JBool bool | JNum int | JStr string | JRef nat

text \<open>
  Plain data, as a response body or a configuration is: a finite map from property names
  to values.
\<close>

type_synonym jsobj = "string \<rightharpoonup> jsval"

text \<open>
  A property of an object in the store is a data property, with its value and whether it
  is writable, or an accessor with no setter. (An accessor with a setter runs code of the
  caller's on assignment; the store holds no such object.)
\<close>

datatype property = Data jsval bool | Getter

text \<open>
  An object has its own properties, the properties it inherits (for each name the nearest
  one up its prototype chain) and the flag that lets new properties be added. A frozen
  object is not extensible and all its properties are read-only; a function has a
  read-only \<open>name\<close> of its own.
\<close>

record js_object =
  own :: "string \<rightharpoonup> property"
  inherited :: "string \<rightharpoonup> property"
  extensible :: bool

text \<open>
  The store maps every address to an object; \<open>fresh\<close> is the next address an object
  literal is allocated at.
\<close>

record heap =
  objs :: "nat \<Rightarrow> js_object"
  fresh :: nat

text \<open>The exceptions the language itself throws.\<close>

datatype js_exn = TypeError

text \<open>What \<open>if (v)\<close> and \<open>v || w\<close> test.\<close>

fun truthy :: "jsval \<Rightarrow> bool" where
  "truthy JUndefined = False"
| "truthy JNull = False"
| "truthy (JBool b) = b"
| "truthy (JNum n) = (n \<noteq> 0)"
| "truthy (JStr s) = (s \<noteq> [])"
| "truthy (JRef a) = True"

text \<open>
  The object literal \<open>{}\<close>: a new object at the next address, extensible, with no
  property of its own; what it inherits from \<open>Object.prototype\<close> has none of the names
  written below.
\<close>

definition empty_object :: js_object where
  "empty_object = \<lparr>own = Map.empty, inherited = Map.empty, extensible = True\<rparr>"

definition alloc :: "heap \<Rightarrow> nat \<times> heap" where
  "alloc h = (fresh h, \<lparr>objs = (objs h)(fresh h := empty_object), fresh = Suc (fresh h)\<rparr>)"

text \<open>
  Whether an object takes the assignment \<open>obj.k = v\<close>. A property of its own decides: a
  writable data property takes it, a read-only one and an accessor without setter do not.
  With none of its own, an inherited read-only property or accessor without setter
  refuses it, and otherwise a new property is made, which the object must be extensible
  for.
\<close>

definition accepts :: "js_object \<Rightarrow> string \<Rightarrow> bool" where
  "accepts obj k =
     (case own obj k of
        Some (Data v w) \<Rightarrow> w
      | Some Getter \<Rightarrow> False
      | None \<Rightarrow>
          (case inherited obj k of
             Some (Data v w) \<Rightarrow> w \<and> extensible obj
           | Some Getter \<Rightarrow> False
           | None \<Rightarrow> extensible obj))"

text \<open>
  The assignment \<open>target.k = v\<close>. The module is strict code: assigning a property of a
  primitive throws, and so does an assignment the object does not take. Otherwise the
  property is written in place, as a writable data property of the object's own.
\<close>

definition set_prop :: "jsval \<Rightarrow> string \<Rightarrow> jsval \<Rightarrow> heap \<Rightarrow> js_exn + heap" where
  "set_prop target k v h =
     (case target of
        JRef a \<Rightarrow>
          if accepts (objs h a) k
          then Inr (h\<lparr>objs := (objs h)(a := (objs h a)\<lparr>own := (own (objs h a))(k \<mapsto> Data v True)\<rparr>)\<rparr>)
          else Inl TypeError
      | _ \<Rightarrow> Inl TypeError)"

text \<open>The values of an object's own data properties.\<close>

definition data_fields :: "js_object \<Rightarrow> jsobj" where
  "data_fields obj k = (case own obj k of Some (Data v w) \<Rightarrow> Some v | _ \<Rightarrow> None)"

text \<open>The read \<open>obj.k\<close> of an object that is there: a missing property reads \<open>undefined\<close>.\<close>

definition get_prop :: "jsobj \<Rightarrow> string \<Rightarrow> jsval" where
  "get_prop obj k = (case obj k of None \<Rightarrow> JUndefined | Some v \<Rightarrow> v)"

section \<open>The transport\<close>

datatype http_method = GET | POST | PATCH | DELETE

text \<open>
  A request goes out through the handle's own \<open>request\<close> (\<open>this.request\<close>, relative to the
  resource) or through its zone's (\<open>this.zone.request\<close>).
\<close>

datatype requester = ThisRequest | ZoneRequest

record request =
  via :: requester
  httpMethod :: http_method
  uri :: string
  qs :: "(string \<times> string) list"
  json :: jsval

text \<open>
  An error of the transport carries the HTTP status when there is one. The transport
  answers a request by calling back with \<open>(err, resp)\<close>: \<open>err\<close> is \<open>null\<close> (\<open>None\<close>) or an
  error, \<open>resp\<close> the response body when there is one. It sees the store as it is when the
  request is made.
\<close>

record api_error =
  code :: "nat option"
  message :: string

type_synonym reply = "api_error option \<times> jsobj option"

type_synonym transport = "heap \<Rightarrow> request \<Rightarrow> reply"

text \<open>
  The JSON body of a request made in store \<open>h\<close>: the data fields of the object its \<open>json\<close>
  refers to, as \<open>h\<close> has them.
\<close>

definition payload :: "heap \<Rightarrow> request \<Rightarrow> jsobj option" where
  "payload h req = (case json req of JRef a \<Rightarrow> Some (data_fields (objs h a)) | _ \<Rightarrow> None)"

section \<open>The parent scope\<close>

text \<open>
  Modelled from the spec: the declarations of \<open>Compute\<close> and \<open>Zone\<close> are not among the
  sources. The poll interval is "a numeric value, in milliseconds", held by the parent
  scope; a zone has a name and belongs to a \<open>compute\<close>.
\<close>

record compute =
  pollIntervalMs :: nat

record zone =
  name :: string
  compute :: compute

text \<open>
  Modelled from the spec: \<open>Zone.operation\<close> is not among the sources. The parent scope
  supplies "a method to construct an Operation handle by provider-assigned id"; the handle
  keeps its scope, the id it was made from, and a cache of metadata, empty when it is made.
\<close>

record operation =
  op_zone :: zone
  op_id :: jsval
  metadata :: "jsobj option"

definition zone_operation :: "zone \<Rightarrow> jsval \<Rightarrow> operation" where
  "zone_operation z n = \<lparr>op_zone = z, op_id = n, metadata = None\<rparr>"

section \<open>The autoscaler handle\<close>

text \<open>The bound method \<open>zone.createAutoscaler.bind(zone)\<close>, as a value.\<close>

datatype method_ref = ZoneCreateAutoscaler zone

text \<open>The configuration the constructor hands to the service object it extends.\<close>

record service_object_config =
  parent :: zone
  baseUrl :: string
  id_field :: string
  createMethod :: method_ref
  methods :: "string list"
  pollIntervalMs :: nat

record autoscaler =
  super :: service_object_config
  name :: string
  zone :: zone

definition Autoscaler :: "zone \<Rightarrow> string \<Rightarrow> autoscaler" where
  "Autoscaler z n =
     \<lparr>super = \<lparr>parent = z,
               baseUrl = ''/autoscalers'',
               id_field = n,
               createMethod = ZoneCreateAutoscaler z,
               methods = [''create'', ''exists'', ''get'', ''getMetadata''],
               pollIntervalMs = compute.pollIntervalMs (zone.compute z)\<rparr>,
      name = n,
      zone = z\<rparr>"

text \<open>
  What the callback of \<open>delete\<close> and \<open>setMetadata\<close> is called with:
  \<open>(err, operation, apiResponse)\<close>.
\<close>

type_synonym callback_args = "api_error option \<times> operation option \<times> jsobj option"

text \<open>
  The closure both methods pass to the transport. With an error it calls back
  \<open>(err, null, resp)\<close>. Otherwise it reads \<open>resp.name\<close>, which throws when there is no
  body, makes the operation through the zone, stores the response as its metadata and
  calls back \<open>(null, operation, resp)\<close>. A callback left out is replaced by one that does
  nothing, so the result here is the arguments of the call, whoever receives them.
\<close>

definition on_response :: "autoscaler \<Rightarrow> reply \<Rightarrow> js_exn + callback_args" where
  "on_response self r =
     (case r of (err, resp) \<Rightarrow>
        (case err of
           Some e \<Rightarrow> Inr (Some e, None, resp)
         | None \<Rightarrow>
             (case resp of
                None \<Rightarrow> Inl TypeError
              | Some body \<Rightarrow>
                  Inr (None,
                       Some ((zone_operation (autoscaler.zone self) (get_prop body ''name''))
                               \<lparr>metadata := Some body\<rparr>),
                       resp))))"

text \<open>
  \<open>delete\<close>: one \<open>DELETE\<close> request through the handle itself. The result is what the
  callback is called with (or the exception thrown on the way), and the requests made.
\<close>

definition delete :: "autoscaler \<Rightarrow> transport \<Rightarrow> heap \<Rightarrow> (js_exn + callback_args) \<times> request list" where
  "delete self tr h =
     (let req = \<lparr>via = ThisRequest, httpMethod = DELETE, uri = '''', qs = [], json = JUndefined\<rparr>
      in (on_response self (tr h req), [req]))"

text \<open>
  \<open>setMetadata\<close>: \<open>json\<close> is the caller's value when it is truthy and a new empty object
  otherwise; the handle's name and its zone's name are written into it, and an
  assignment that throws ends the call with nothing sent; one \<open>PATCH\<close> request through
  the zone carries it, the transport being handed the store as the two assignments left
  it. The result also holds that store.
\<close>

definition setMetadata ::
  "autoscaler \<Rightarrow> jsval \<Rightarrow> transport \<Rightarrow> heap \<Rightarrow> (js_exn + callback_args) \<times> request list \<times> heap" where
  "setMetadata self md tr h =
     (case (if truthy md then (md, h) else (case alloc h of (a, h') \<Rightarrow> (JRef a, h'))) of
        (js, h0) \<Rightarrow>
          (case set_prop js ''name'' (JStr (autoscaler.name self)) h0 of
             Inl ex \<Rightarrow> (Inl ex, [], h0)
           | Inr h1 \<Rightarrow>
               (case set_prop js ''zone'' (JStr (zone.name (autoscaler.zone self))) h1 of
                  Inl ex \<Rightarrow> (Inl ex, [], h1)
                | Inr h2 \<Rightarrow>
                    (let req = \<lparr>via = ZoneRequest, httpMethod = PATCH, uri = ''/autoscalers'',
                                qs = [(''autoscaler'', autoscaler.name self)], json = js\<rparr>
                     in (on_response self (tr h2 req), [req], h2)))))"

section \<open>The methods the handle inherits\<close>

text \<open>
  The constructor switches on \<open>create\<close>, \<open>exists\<close>, \<open>get\<close> and \<open>getMetadata\<close>; their code is
  in the service object the class extends, and \<open>Zone.createAutoscaler\<close> is in the zone.
  Neither is among the sources. What a call of the bound create method answers is a
  parameter: an error, or the new handle with the operation that creates it.
\<close>

type_synonym create_reply = "api_error + autoscaler \<times> operation"

type_synonym create_behaviour = "zone \<Rightarrow> string \<Rightarrow> jsobj \<Rightarrow> create_reply"

text \<open>Calling a bound method: \<open>zone.createAutoscaler\<close> on the zone it is bound to.\<close>

fun call_method :: "create_behaviour \<Rightarrow> method_ref \<Rightarrow> string \<Rightarrow> jsobj \<Rightarrow> create_reply" where
  "call_method zc (ZoneCreateAutoscaler z) n cfg = zc z n cfg"

text \<open>What an inherited method does to the outside: requests, and calls of the create method.\<close>

datatype call = Request request | Create method_ref string jsobj

text \<open>
  Modelled from the spec: how the service object tells "not found" is not among the
  sources. The transport surfaces "HTTP status semantics (404 = not-found, 409 = conflict,
  2xx = success)".
\<close>

definition is_not_found :: "api_error \<Rightarrow> bool" where
  "is_not_found e = (code e = Some 404)"

text \<open>
  Modelled from the spec: \<open>getMetadata\<close> of the service object is not among the sources.
  "\<open>getMetadata() -> object\<close>: raw metadata fetch": one \<open>GET\<close> through the handle, whose
  error or body is the result.
\<close>

definition getMetadata ::
  "autoscaler \<Rightarrow> transport \<Rightarrow> heap \<Rightarrow> (api_error + jsobj option) \<times> call list" where
  "getMetadata self tr h =
     (let req = \<lparr>via = ThisRequest, httpMethod = GET, uri = '''', qs = [], json = JUndefined\<rparr>
      in (case tr h req of (Some e, resp) \<Rightarrow> Inl e | (None, resp) \<Rightarrow> Inr resp, [Request req]))"

text \<open>
  Modelled from the spec: \<open>create\<close> of the service object is not among the sources.
  "\<open>create(config) -> (ResourceHandle, OperationHandle)\<close>: constructs the provider-side
  object from \<open>config\<close>", through the create method the constructor configured, for the
  handle's own id.
\<close>

definition create ::
  "autoscaler \<Rightarrow> jsobj \<Rightarrow> create_behaviour \<Rightarrow> create_reply \<times> call list" where
  "create self cfg zc =
     (let m = createMethod (super self); n = id_field (super self)
      in (call_method zc m n cfg, [Create m n cfg]))"

text \<open>
  The options of \<open>get\<close>: \<open>autoCreate\<close>, and the configuration \<open>create\<close> needs, which the
  caller puts into the same object.
\<close>

record get_options =
  autoCreate :: bool
  config :: jsobj

text \<open>
  Modelled from the spec: \<open>get\<close> of the service object is not among the sources.
  "\<open>get(options?) -> ResourceHandle\<close>: fetches metadata; if \<open>options.autoCreate\<close> is set and
  the resource is absent, transparently calls \<open>create\<close> with the caller-supplied config and
  returns the newly created handle instead of failing." Every other error, and an error
  of that \<open>create\<close>, goes to the caller ("all errors propagate to the immediate caller").
\<close>

definition get ::
  "autoscaler \<Rightarrow> get_options \<Rightarrow> transport \<Rightarrow> create_behaviour \<Rightarrow> heap \<Rightarrow>
     (api_error + autoscaler) \<times> call list" where
  "get self options tr zc h =
     (case getMetadata self tr h of
        (Inr md, t) \<Rightarrow> (Inr self, t)
      | (Inl e, t) \<Rightarrow>
          if is_not_found e \<and> autoCreate options
          then (case create self (config options) zc of
                  (Inl e', t') \<Rightarrow> (Inl e', t @ t')
                | (Inr (a, opn), t') \<Rightarrow> (Inr a, t @ t'))
          else (Inl e, t))"

text \<open>
  Modelled from the spec: \<open>exists\<close> of the service object is not among the sources.
  "\<open>exists() -> bool\<close>: performs a \<open>get\<close> and translates a "not found" response into \<open>false\<close>
  rather than propagating it as an error; any other transport failure still propagates."
\<close>

definition exists ::
  "autoscaler \<Rightarrow> transport \<Rightarrow> create_behaviour \<Rightarrow> heap \<Rightarrow> (api_error + bool) \<times> call list" where
  "exists self tr zc h =
     (case get self \<lparr>autoCreate = False, config = Map.empty\<rparr> tr zc h of
        (Inr a, t) \<Rightarrow> (Inr True, t)
      | (Inl e, t) \<Rightarrow> (if is_not_found e then Inr False else Inl e, t))"

section \<open>Waiting for an operation\<close>

text \<open>
  Modelled from the spec: the \<open>Operation\<close> class and its polling are not among the sources.
  An operation has a \<open>status\<close>, "enumerated: PENDING, RUNNING, DONE", and \<open>errors\<close>, an
  "ordered sequence of per-sub-operation failure records, possibly empty".
\<close>

datatype op_status = PENDING | RUNNING | DONE

record op_state =
  status :: op_status
  errors :: "jsobj list"

text \<open>
  How a wait ends: it resolves, or it is rejected with an error of the transport, with
  the errors of the operation, or because the time was up. A promise in general resolves
  with a value or is rejected with an error.
\<close>

datatype wait_error = RequestError api_error | OperationError "jsobj list" | TimeoutError

datatype ('e, 'v) promise = Resolved 'v | Rejected 'e

text \<open>
  The caller's poll interval and, when given, the longest time to wait, in milliseconds.
  The provider is what each fetch of the status answers, the first fetch being number 0.
\<close>

record wait_options =
  interval :: nat
  maxDuration :: "nat option"

type_synonym provider = "nat \<Rightarrow> api_error + op_state"

definition elapsed_out :: "wait_options \<Rightarrow> nat \<Rightarrow> bool" where
  "elapsed_out opts t = (case maxDuration opts of None \<Rightarrow> False | Some m \<Rightarrow> m \<le> t)"

text \<open>
  Modelled from the spec: how the status is fetched is not among the sources. "(b) fetches
  current operation status": a \<open>GET\<close> through the operation handle.
\<close>

definition fetch_request :: request where
  "fetch_request = \<lparr>via = ThisRequest, httpMethod = GET, uri = '''', qs = [], json = JUndefined\<rparr>"

text \<open>
  How a wait went: how it ended, the time it had been suspended for by then, in
  milliseconds, and the requests it made.
\<close>

record wait_run =
  outcome :: "(wait_error, unit) promise"
  ended_at :: nat
  requests :: "request list"

text \<open>
  Modelled from the spec: the polling loop is not among the sources. "The loop repeatedly:
  (a) suspends for the poll interval, (b) fetches current operation status, (c) if status
  is DONE, resolves with success (if \<open>errors\<close> empty) or fails with an \<open>OperationError\<close>
  carrying the structured error list; (d) if the maximum wait duration elapses first,
  fails with a \<open>TimeoutError\<close> without cancelling the underlying provider-side operation";
  "a single transport failure during polling should propagate as an error". Here \<open>k\<close>
  counts the fetches made, \<open>t\<close> is the time suspended so far and \<open>sent\<close> the requests made
  so far; time passes in the suspensions only. With no longest time and an operation that
  is never done the loop does not end: its result is then \<open>None\<close>.
\<close>

partial_function (option) poll_loop ::
  "wait_options \<Rightarrow> provider \<Rightarrow> nat \<Rightarrow> nat \<Rightarrow> request list \<Rightarrow> wait_run option" where
  "poll_loop opts prov k t sent =
     (let t' = t + interval opts; sent' = sent @ [fetch_request] in
      case prov k of
        Inl e \<Rightarrow> Some \<lparr>outcome = Rejected (RequestError e), ended_at = t', requests = sent'\<rparr>
      | Inr s \<Rightarrow>
          if status s = DONE
          then (if errors s = []
                then Some \<lparr>outcome = Resolved (), ended_at = t', requests = sent'\<rparr>
                else Some \<lparr>outcome = Rejected (OperationError (errors s)), ended_at = t',
                           requests = sent'\<rparr>)
          else if elapsed_out opts t'
          then Some \<lparr>outcome = Rejected TimeoutError, ended_at = t', requests = sent'\<rparr>
          else poll_loop opts prov (Suc k) t' sent')"

text \<open>
  Modelled from the spec: "Caller requests "wait for completion," optionally supplying a
  maximum wait duration and a poll interval"; the loop starts with no fetch made and no
  time gone. \<open>wait\<close> is how the wait ends, for the caller.
\<close>

definition run_wait :: "wait_options \<Rightarrow> provider \<Rightarrow> wait_run option" where
  "run_wait opts prov = poll_loop opts prov 0 0 []"

definition wait :: "wait_options \<Rightarrow> provider \<Rightarrow> (wait_error, unit) promise option" where
  "wait opts prov = map_option outcome (run_wait opts prov)"

section \<open>Concrete handles for the examples\<close>

definition zone0 :: zone where
  "zone0 = \<lparr>zone.name = ''us-central1-a'', zone.compute = \<lparr>compute.pollIntervalMs = 500\<rparr>\<rparr>"

definition heap0 :: heap where
  "heap0 = \<lparr>objs = (\<lambda>a. empty_object), fresh = 0\<rparr>"

definition autoscaler0 :: autoscaler where
  "autoscaler0 = Autoscaler zone0 ''autoscaler-name''"

definition body0 :: jsobj where
  "body0 = [''name'' \<mapsto> JStr ''operation-1'', ''status'' \<mapsto> JStr ''PENDING'']"

definition transport_ok :: transport where
  "transport_ok h req = (None, Some body0)"

definition error0 :: api_error where
  "error0 = \<lparr>code = Some 503, message = ''unavailable''\<rparr>"

definition transport_failing :: transport where
  "transport_failing h req = (Some error0, None)"

definition patch1 :: js_object where
  "patch1 = \<lparr>own = [''description'' \<mapsto> Data (JStr ''New description'') True,
                    ''name'' \<mapsto> Data (JStr ''another-name'') True],
             inherited = Map.empty, extensible = True\<rparr>"

definition heap1 :: heap where
  "heap1 = \<lparr>objs = (\<lambda>a. empty_object)(0 := patch1), fresh = 1\<rparr>"

definition callback_function :: js_object where
  "callback_function = \<lparr>own = [''name'' \<mapsto> Data (JStr []) False,
                               ''length'' \<mapsto> Data (JNum 0) False],
                        inherited = Map.empty, extensible = True\<rparr>"

definition heap_callback :: heap where
  "heap_callback = \<lparr>objs = (\<lambda>a. empty_object)(0 := callback_function), fresh = 1\<rparr>"

definition error404 :: api_error where
  "error404 = \<lparr>code = Some 404, message = ''not found''\<rparr>"

definition transport_not_found :: transport where
  "transport_not_found h req = (Some error404, None)"

definition operation0 :: operation where
  "operation0 = \<lparr>op_zone = zone0, op_id = JStr ''operation-1'', metadata = Some body0\<rparr>"

definition config0 :: jsobj where
  "config0 = [''coolDown'' \<mapsto> JNum 30, ''cpu'' \<mapsto> JNum 80, ''target'' \<mapsto> JStr ''instance-group-manager-1'']"

definition createAutoscaler0 :: create_behaviour where
  "createAutoscaler0 z n cfg = Inr (Autoscaler z n, operation0)"

definition failed_state :: op_state where
  "failed_state = \<lparr>status = DONE, errors = [[''code'' \<mapsto> JStr ''QUOTA_EXCEEDED'']]\<rparr>"

definition provider_failed :: provider where
  "provider_failed k = Inr failed_state"

definition statuses0 :: provider where
  "statuses0 k =
     (if k = 0 then Inr \<lparr>status = PENDING, errors = []\<rparr>
      else if k = 1 then Inr \<lparr>status = RUNNING, errors = []\<rparr>
      else Inr failed_state)"

definition never_done :: provider where
  "never_done k = Inr \<lparr>status = RUNNING, errors = []\<rparr>"

definition wait_options0 :: wait_options where
  "wait_options0 = \<lparr>interval = 100, maxDuration = Some 300\<rparr>"

section \<open>The constructor\<close>

text \<open>
  C8: every autoscaler handle takes its poll interval, a number of milliseconds, from its
  parent scope: the configuration the constructor passes on has \<open>pollIntervalMs\<close> equal
  to the \<open>pollIntervalMs\<close> of the zone's \<open>compute\<close>.
\<close>

theorem constructor_inherits_pollIntervalMs:
  "service_object_config.pollIntervalMs (super (Autoscaler z n)) =
     compute.pollIntervalMs (zone.compute z)"
  by (simp add: Autoscaler_def)

section \<open>delete\<close>

text \<open>
  C4: when the transport answers the \<open>DELETE\<close> request without an error and with a
  body, \<open>delete\<close> calls back with no error, with the operation its zone makes from the
  body's \<open>name\<close>, the body stored as that operation's metadata, and with the body itself.
  The \<open>DELETE\<close> is the only request made: the operation is handed over as it is, and
  nothing polls it.
\<close>

theorem delete_returns_operation:
  assumes "tr h \<lparr>via = ThisRequest, httpMethod = DELETE, uri = '''', qs = [], json = JUndefined\<rparr> = (None, Some body)"
  shows "delete self tr h =
           (Inr (None,
                 Some ((zone_operation (autoscaler.zone self) (get_prop body ''name''))\<lparr>metadata := Some body\<rparr>),
                 Some body),
            [\<lparr>via = ThisRequest, httpMethod = DELETE, uri = '''', qs = [], json = JUndefined\<rparr>])"
  using assms by (simp add: delete_def on_response_def)

theorem delete_returns_operation_witness:
  "delete autoscaler0 transport_ok heap0 =
     (Inr (None,
           Some \<lparr>op_zone = zone0, op_id = JStr ''operation-1'', metadata = Some body0\<rparr>,
           Some body0),
      [\<lparr>via = ThisRequest, httpMethod = DELETE, uri = '''', qs = [], json = JUndefined\<rparr>])"
  using delete_returns_operation [of transport_ok heap0 body0 autoscaler0]
  by (simp add: transport_ok_def autoscaler0_def Autoscaler_def zone_operation_def get_prop_def body0_def)

section \<open>setMetadata\<close>

text \<open>Writing one property does not change whether the object takes another.\<close>

lemma accepts_other:
  "k \<noteq> k' \<Longrightarrow> accepts (obj\<lparr>own := (own obj)(k' \<mapsto> p)\<rparr>) k = accepts obj k"
  by (simp add: accepts_def split: option.splits property.splits)

text \<open>
  What \<open>setMetadata\<close> does with a reference to an object that takes both assignments,
  with one that refuses either, with a patch that is left out (or is falsy), and with a
  truthy primitive.
\<close>

lemma setMetadata_object:
  assumes "accepts (objs h a) ''name''" and "accepts (objs h a) ''zone''"
  shows "setMetadata self (JRef a) tr h =
     (let h' = h\<lparr>objs := (objs h)(a := (objs h a)\<lparr>own := (own (objs h a))
                     (''name'' \<mapsto> Data (JStr (autoscaler.name self)) True,
                      ''zone'' \<mapsto> Data (JStr (zone.name (autoscaler.zone self))) True)\<rparr>)\<rparr>;
          req = \<lparr>via = ZoneRequest, httpMethod = PATCH, uri = ''/autoscalers'',
                 qs = [(''autoscaler'', autoscaler.name self)], json = JRef a\<rparr>
      in (on_response self (tr h' req), [req], h'))"
  using assms by (simp add: setMetadata_def set_prop_def accepts_other Let_def)

lemma setMetadata_refused:
  assumes "\<not> (accepts (objs h a) ''name'' \<and> accepts (objs h a) ''zone'')"
  shows "fst (setMetadata self (JRef a) tr h) = Inl TypeError \<and>
         fst (snd (setMetadata self (JRef a) tr h)) = []"
  using assms by (auto simp: setMetadata_def set_prop_def accepts_other Let_def)

lemma setMetadata_omitted:
  assumes "\<not> truthy md"
  shows "setMetadata self md tr h =
     (let h' = \<lparr>objs = (objs h)(fresh h := empty_object\<lparr>own :=
                     [''name'' \<mapsto> Data (JStr (autoscaler.name self)) True,
                      ''zone'' \<mapsto> Data (JStr (zone.name (autoscaler.zone self))) True]\<rparr>),
                 fresh = Suc (fresh h)\<rparr>;
          req = \<lparr>via = ZoneRequest, httpMethod = PATCH, uri = ''/autoscalers'',
                 qs = [(''autoscaler'', autoscaler.name self)], json = JRef (fresh h)\<rparr>
      in (on_response self (tr h' req), [req], h'))"
  using assms
  by (simp add: setMetadata_def set_prop_def alloc_def Let_def accepts_def empty_object_def)

lemma setMetadata_primitive:
  assumes "truthy md" and "\<forall>a. md \<noteq> JRef a"
  shows "snd (setMetadata self md tr h) = ([], h)"
  using assms by (cases md) (simp_all add: setMetadata_def set_prop_def)

lemma setMetadata_cases:
  obtains (omitted) "\<not> truthy md"
  | (object) a where "md = JRef a" "accepts (objs h a) ''name''" "accepts (objs h a) ''zone''"
  | (refused) a where "md = JRef a" "\<not> (accepts (objs h a) ''name'' \<and> accepts (objs h a) ''zone'')"
  | (primitive) "truthy md" "\<forall>a. md \<noteq> JRef a"
  by (cases md) auto

text \<open>
  C2: for every patch, the JSON body of every request \<open>setMetadata\<close> makes has \<open>name\<close> equal
  to the handle's name and \<open>zone\<close> equal to the name of the handle's zone, whether or not
  the patch had them: the request is a \<open>PATCH\<close> through the zone, the store the body is
  read in is the one handed to the transport (the callback's arguments are the
  transport's answer in that store), and a patch that is left out, or is an object that
  takes the two assignments, has exactly one such request made. Where an assignment
  throws, nothing is sent.
\<close>

theorem setMetadata_payload_has_name_and_zone:
  assumes "setMetadata self md tr h = (r, sent, h')"
  shows "(\<forall>req \<in> set sent.
            via req = ZoneRequest \<and> httpMethod req = PATCH \<and>
            r = on_response self (tr h' req) \<and>
            (\<exists>obj. payload h' req = Some obj \<and>
               obj ''name'' = Some (JStr (autoscaler.name self)) \<and>
               obj ''zone'' = Some (JStr (zone.name (autoscaler.zone self))))) \<and>
         (md = JUndefined \<or>
            (\<exists>a. md = JRef a \<and> accepts (objs h a) ''name'' \<and> accepts (objs h a) ''zone'') \<longrightarrow>
          length sent = 1)"
proof (cases rule: setMetadata_cases [where md = md and h = h])
  case omitted
  with assms show ?thesis
    by (auto simp: setMetadata_omitted payload_def data_fields_def Let_def)
next
  case (object a)
  with assms show ?thesis
    by (auto simp: setMetadata_object payload_def data_fields_def Let_def)
next
  case (refused a)
  with assms setMetadata_refused [of h a self tr] show ?thesis
    by auto
next
  case primitive
  with assms setMetadata_primitive [of md self tr h] show ?thesis
    by auto
qed

theorem setMetadata_payload_has_name_and_zone_witness:
  "\<exists>req obj. fst (snd (setMetadata autoscaler0 (JRef 0) transport_ok heap1)) = [req] \<and>
      via req = ZoneRequest \<and> httpMethod req = PATCH \<and>
      payload (snd (snd (setMetadata autoscaler0 (JRef 0) transport_ok heap1))) req = Some obj \<and>
      obj ''name'' = Some (JStr ''autoscaler-name'') \<and>
      obj ''zone'' = Some (JStr ''us-central1-a'')"
proof -
  let ?res = "setMetadata autoscaler0 (JRef 0) transport_ok heap1"
  have acc: "accepts (objs heap1 0) ''name''" "accepts (objs heap1 0) ''zone''"
    by (simp_all add: heap1_def patch1_def accepts_def)
  have names: "autoscaler.name autoscaler0 = ''autoscaler-name''"
    "zone.name (autoscaler.zone autoscaler0) = ''us-central1-a''"
    by (simp_all add: autoscaler0_def Autoscaler_def zone0_def)
  have res: "?res = (fst ?res, fst (snd ?res), snd (snd ?res))"
    by simp
  note fact = setMetadata_payload_has_name_and_zone [OF res]
  from fact acc have "length (fst (snd ?res)) = 1"
    by blast
  then obtain req where one: "fst (snd ?res) = [req]"
    by (cases "fst (snd ?res)") auto
  with fact show ?thesis
    unfolding names by auto
qed

text \<open>
  C10: for a patch object \<open>p\<close> at address \<open>a\<close>, the body of every request made is \<open>p\<close> with
  \<open>name\<close> and \<open>zone\<close> set to the handle's name and its zone's name (over whatever \<open>p\<close> had
  there) and every other field as \<open>p\<close> has it; the request carries the caller's own
  reference, and the store handed to the transport and left to the caller is the old one
  with just these two properties of the object at \<open>a\<close> written: the patch is changed in
  place. With no patch the body is a new object holding exactly the two properties. A
  patch left out, or one that takes the two assignments, has exactly one request made.
\<close>

theorem setMetadata_mutates_patch_in_place:
  assumes "setMetadata self md tr h = (r, sent, h')"
  shows "(\<forall>req \<in> set sent.
            r = on_response self (tr h' req) \<and>
            (md = JRef a \<longrightarrow>
               json req = JRef a \<and>
               h' = h\<lparr>objs := (objs h)(a := (objs h a)\<lparr>own := (own (objs h a))
                          (''name'' \<mapsto> Data (JStr (autoscaler.name self)) True,
                           ''zone'' \<mapsto> Data (JStr (zone.name (autoscaler.zone self))) True)\<rparr>)\<rparr> \<and>
               payload h' req =
                 Some ((data_fields (objs h a))
                          (''name'' \<mapsto> JStr (autoscaler.name self),
                           ''zone'' \<mapsto> JStr (zone.name (autoscaler.zone self))))) \<and>
            (md = JUndefined \<longrightarrow>
               json req = JRef (fresh h) \<and>
               h' = \<lparr>objs = (objs h)(fresh h := empty_object\<lparr>own :=
                          [''name'' \<mapsto> Data (JStr (autoscaler.name self)) True,
                           ''zone'' \<mapsto> Data (JStr (zone.name (autoscaler.zone self))) True]\<rparr>),
                      fresh = Suc (fresh h)\<rparr> \<and>
               payload h' req =
                 Some [''name'' \<mapsto> JStr (autoscaler.name self),
                       ''zone'' \<mapsto> JStr (zone.name (autoscaler.zone self))])) \<and>
         (md = JUndefined \<or>
            md = JRef a \<and> accepts (objs h a) ''name'' \<and> accepts (objs h a) ''zone'' \<longrightarrow>
          length sent = 1)"
proof (cases rule: setMetadata_cases [where md = md and h = h])
  case omitted
  with assms show ?thesis
    by (auto simp: setMetadata_omitted payload_def data_fields_def Let_def empty_object_def fun_eq_iff)
next
  case (object b)
  with assms show ?thesis
    by (auto simp: setMetadata_object payload_def data_fields_def Let_def fun_eq_iff)
next
  case (refused b)
  with assms setMetadata_refused [of h b self tr] show ?thesis
    by auto
next
  case primitive
  with assms setMetadata_primitive [of md self tr h] show ?thesis
    by auto
qed

theorem setMetadata_mutates_patch_in_place_witness:
  "(\<exists>req. fst (snd (setMetadata autoscaler0 (JRef 0) transport_ok heap1)) = [req] \<and>
      json req = JRef 0 \<and>
      payload (snd (snd (setMetadata autoscaler0 (JRef 0) transport_ok heap1))) req =
        Some [''description'' \<mapsto> JStr ''New description'',
              ''name'' \<mapsto> JStr ''autoscaler-name'',
              ''zone'' \<mapsto> JStr ''us-central1-a'']) \<and>
   own (objs (snd (snd (setMetadata autoscaler0 (JRef 0) transport_ok heap1))) 0) =
     [''description'' \<mapsto> Data (JStr ''New description'') True,
      ''name'' \<mapsto> Data (JStr ''autoscaler-name'') True,
      ''zone'' \<mapsto> Data (JStr ''us-central1-a'') True]"
proof -
  let ?res = "setMetadata autoscaler0 (JRef 0) transport_ok heap1"
  have acc: "accepts (objs heap1 0) ''name''" "accepts (objs heap1 0) ''zone''"
    by (simp_all add: heap1_def patch1_def accepts_def)
  have names: "autoscaler.name autoscaler0 = ''autoscaler-name''"
    "zone.name (autoscaler.zone autoscaler0) = ''us-central1-a''"
    by (simp_all add: autoscaler0_def Autoscaler_def zone0_def)
  have old: "own (objs heap1 0) =
      [''description'' \<mapsto> Data (JStr ''New description'') True,
       ''name'' \<mapsto> Data (JStr ''another-name'') True]"
    "data_fields (objs heap1 0) =
      [''description'' \<mapsto> JStr ''New description'', ''name'' \<mapsto> JStr ''another-name'']"
    by (auto simp: heap1_def patch1_def data_fields_def fun_eq_iff)
  have res: "?res = (fst ?res, fst (snd ?res), snd (snd ?res))"
    by simp
  note fact = setMetadata_mutates_patch_in_place [OF res, of 0]
  from fact acc have "length (fst (snd ?res)) = 1"
    by blast
  then obtain req where one: "fst (snd ?res) = [req]"
    by (cases "fst (snd ?res)") auto
  then have mem: "req \<in> set (fst (snd ?res))"
    by simp
  from fact mem have sent_req: "json req = JRef 0"
    and store: "snd (snd ?res) = heap1\<lparr>objs := (objs heap1)(0 := (objs heap1 0)\<lparr>own := (own (objs heap1 0))
        (''name'' \<mapsto> Data (JStr ''autoscaler-name'') True,
         ''zone'' \<mapsto> Data (JStr ''us-central1-a'') True)\<rparr>)\<rparr>"
    and body: "payload (snd (snd ?res)) req =
       Some ((data_fields (objs heap1 0))
               (''name'' \<mapsto> JStr ''autoscaler-name'', ''zone'' \<mapsto> JStr ''us-central1-a''))"
    unfolding names by blast+
  have body': "payload (snd (snd ?res)) req =
        Some [''description'' \<mapsto> JStr ''New description'',
              ''name'' \<mapsto> JStr ''autoscaler-name'',
              ''zone'' \<mapsto> JStr ''us-central1-a'']"
    unfolding body old by simp
  have own': "own (objs (snd (snd ?res)) 0) =
     [''description'' \<mapsto> Data (JStr ''New description'') True,
      ''name'' \<mapsto> Data (JStr ''autoscaler-name'') True,
      ''zone'' \<mapsto> Data (JStr ''us-central1-a'') True]"
    unfolding store by (simp add: old)
  from one sent_req body' own' show ?thesis
    by blast
qed

section \<open>Errors of the transport\<close>

text \<open>
  C5: when the transport answers the request of \<open>delete\<close> or of \<open>setMetadata\<close> with an
  error, the callback gets that very error, \<open>null\<close> for the operation and the response as
  it came; the request that failed is the only one made, so nothing is tried again and
  nothing is put in the error's place.
\<close>

theorem transport_errors_reach_the_callback:
  "(tr h \<lparr>via = ThisRequest, httpMethod = DELETE, uri = '''', qs = [], json = JUndefined\<rparr> = (Some e, resp) \<longrightarrow>
      delete self tr h =
        (Inr (Some e, None, resp),
         [\<lparr>via = ThisRequest, httpMethod = DELETE, uri = '''', qs = [], json = JUndefined\<rparr>])) \<and>
   (setMetadata self' md tr h = (r, sent, h') \<and> req \<in> set sent \<and> tr h' req = (Some e', resp') \<longrightarrow>
      r = Inr (Some e', None, resp') \<and> sent = [req])"
proof (intro conjI impI)
  assume "tr h \<lparr>via = ThisRequest, httpMethod = DELETE, uri = '''', qs = [], json = JUndefined\<rparr> = (Some e, resp)"
  then show "delete self tr h =
        (Inr (Some e, None, resp),
         [\<lparr>via = ThisRequest, httpMethod = DELETE, uri = '''', qs = [], json = JUndefined\<rparr>])"
    by (simp add: delete_def on_response_def)
next
  assume a: "setMetadata self' md tr h = (r, sent, h') \<and> req \<in> set sent \<and> tr h' req = (Some e', resp')"
  then show "r = Inr (Some e', None, resp')"
    by (auto simp: setMetadata_def set_prop_def on_response_def Let_def
             split: if_splits prod.splits jsval.splits)
  from a show "sent = [req]"
    by (auto simp: setMetadata_def set_prop_def on_response_def Let_def
             split: if_splits prod.splits jsval.splits)
qed

theorem transport_errors_reach_the_callback_witness:
  "delete autoscaler0 transport_failing heap0 =
     (Inr (Some error0, None, None),
      [\<lparr>via = ThisRequest, httpMethod = DELETE, uri = '''', qs = [], json = JUndefined\<rparr>]) \<and>
   fst (setMetadata autoscaler0 JUndefined transport_failing heap0) = Inr (Some error0, None, None) \<and>
   length (fst (snd (setMetadata autoscaler0 JUndefined transport_failing heap0))) = 1"
  using transport_errors_reach_the_callback
    [of transport_failing heap0 error0 None autoscaler0 autoscaler0 JUndefined
        "fst (setMetadata autoscaler0 JUndefined transport_failing heap0)"
        "fst (snd (setMetadata autoscaler0 JUndefined transport_failing heap0))"
        "snd (snd (setMetadata autoscaler0 JUndefined transport_failing heap0))"
        "hd (fst (snd (setMetadata autoscaler0 JUndefined transport_failing heap0)))"
        error0 None]
  by (simp add: transport_failing_def setMetadata_omitted Let_def)

section \<open>The two styles of call\<close>

text \<open>
  C7: the two styles do not give the same result on every input. When \<open>setMetadata\<close> is
  called with neither patch nor callback, the callback that settles the promise is the
  only argument and arrives in the place of the patch: a function, whose \<open>name\<close> is
  read-only. The assignment throws, nothing is sent and the store is as it was, where
  the call with no patch and a callback makes its request and hands the callback the
  operation and the response.
\<close>

theorem setMetadata_throws_on_function_patch:
  "setMetadata autoscaler0 (JRef 0) transport_ok heap_callback = (Inl TypeError, [], heap_callback) \<and>
   fst (setMetadata autoscaler0 JUndefined transport_ok heap_callback) =
     Inr (None, Some operation0, Some body0) \<and>
   length (fst (snd (setMetadata autoscaler0 JUndefined transport_ok heap_callback))) = 1"
  by (simp add: setMetadata_def set_prop_def accepts_def heap_callback_def callback_function_def
        alloc_def empty_object_def on_response_def transport_ok_def operation0_def
        zone_operation_def get_prop_def body0_def autoscaler0_def Autoscaler_def Let_def)

section \<open>Operations that are done\<close>

text \<open>Once a fetch answers \<open>DONE\<close>, the loop ends there, whatever the time.\<close>

lemma poll_loop_done:
  assumes "prov k = Inr s" and "status s = DONE"
  shows "poll_loop opts prov k t sent =
           Some \<lparr>outcome = (if errors s = [] then Resolved () else Rejected (OperationError (errors s))),
                 ended_at = t + interval opts, requests = sent @ [fetch_request]\<rparr>"
  using assms by (subst poll_loop.simps) simp

text \<open>
  A fetch that answers with a status that is not \<open>DONE\<close> ends the loop when the time is
  up and otherwise leads to the next round.
\<close>

lemma poll_loop_not_done:
  assumes "prov k = Inr s" and "status s \<noteq> DONE"
  shows "poll_loop opts prov k t sent =
           (if elapsed_out opts (t + interval opts)
            then Some \<lparr>outcome = Rejected TimeoutError, ended_at = t + interval opts,
                       requests = sent @ [fetch_request]\<rparr>
            else poll_loop opts prov (Suc k) (t + interval opts) (sent @ [fetch_request]))"
  using assms by (subst poll_loop.simps) (simp add: Let_def)

text \<open>
  A fetch that answers \<open>DONE\<close> settles the wait also when the fetches before it answered
  with a status that is not \<open>DONE\<close> and the time was not up after any of them.
\<close>

lemma poll_loop_reaches_done:
  assumes "prov (k + n) = Inr s" and "status s = DONE"
    and "\<forall>j<n. \<exists>s'. prov (k + j) = Inr s' \<and> status s' \<noteq> DONE"
    and "\<forall>j<n. \<not> elapsed_out opts (t + Suc j * interval opts)"
  shows "map_option outcome (poll_loop opts prov k t sent) =
           Some (if errors s = [] then Resolved () else Rejected (OperationError (errors s)))"
  using assms
proof (induction n arbitrary: k t sent)
  case 0
  then show ?case by (simp add: poll_loop_done)
next
  case (Suc n)
  from Suc.prems(3) obtain s' where s': "prov k = Inr s'" "status s' \<noteq> DONE"
    by (metis add.right_neutral zero_less_Suc)
  from Suc.prems(4) have now: "\<not> elapsed_out opts (t + interval opts)"
    by (metis One_nat_def mult.left_neutral zero_less_Suc)
  have later: "\<forall>j<n. \<exists>s'. prov (Suc k + j) = Inr s' \<and> status s' \<noteq> DONE"
    using Suc.prems(3) by (metis Suc_less_eq add_Suc_shift)
  have time: "\<forall>j<n. \<not> elapsed_out opts (t + interval opts + Suc j * interval opts)"
  proof (intro allI impI)
    fix j assume "j < n"
    then have "Suc j < Suc n" by simp
    with Suc.prems(4) have "\<not> elapsed_out opts (t + Suc (Suc j) * interval opts)"
      by blast
    then show "\<not> elapsed_out opts (t + interval opts + Suc j * interval opts)"
      by (simp add: add.assoc)
  qed
  have "map_option outcome (poll_loop opts prov (Suc k) (t + interval opts) (sent @ [fetch_request])) =
          Some (if errors s = [] then Resolved () else Rejected (OperationError (errors s)))"
    using Suc.IH [of "Suc k" "t + interval opts" "sent @ [fetch_request]"] Suc.prems(1,2) later time
    by simp
  then show ?case
    using s' now by (simp add: poll_loop_not_done)
qed

text \<open>
  C1: waiting on an operation whose status reaches \<open>DONE\<close> (at the first fetch, or after
  fetches that found it not yet done while there was time left) resolves exactly when its
  list of errors is empty, and is rejected with an \<open>OperationError\<close> exactly when the list
  is not empty, the error then carrying that same list. So an operation that is done has
  not thereby succeeded: the operations of the example after the theorem are done and
  their waits are rejected.
\<close>

theorem done_operation_settles_by_errors:
  assumes "prov n = Inr s" and "status s = DONE"
    and "\<forall>j<n. \<exists>s'. prov j = Inr s' \<and> status s' \<noteq> DONE"
    and "\<forall>j<n. \<not> elapsed_out opts (Suc j * interval opts)"
  shows "(wait opts prov = Some (Resolved ()) \<longleftrightarrow> errors s = []) \<and>
         (wait opts prov = Some (Rejected (OperationError es)) \<longleftrightarrow> errors s \<noteq> [] \<and> es = errors s)"
proof -
  have "wait opts prov =
          Some (if errors s = [] then Resolved () else Rejected (OperationError (errors s)))"
    using assms
      poll_loop_reaches_done [where prov = prov and k = 0 and n = n and s = s and opts = opts
                                and t = 0 and sent = "[]"]
    by (simp add: wait_def run_wait_def)
  then show ?thesis
    by auto
qed

theorem done_operation_settles_by_errors_witness:
  "wait wait_options0 statuses0 \<noteq> Some (Resolved ()) \<and>
   wait wait_options0 statuses0 =
     Some (Rejected (OperationError [[''code'' \<mapsto> JStr ''QUOTA_EXCEEDED'']])) \<and>
   wait wait_options0 provider_failed =
     Some (Rejected (OperationError [[''code'' \<mapsto> JStr ''QUOTA_EXCEEDED'']]))"
proof -
  have a: "\<forall>j<2. \<exists>s'. statuses0 j = Inr s' \<and> status s' \<noteq> DONE"
    by (auto simp: statuses0_def)
  have b: "\<forall>j<2. \<not> elapsed_out wait_options0 (Suc j * interval wait_options0)"
    by (auto simp: elapsed_out_def wait_options0_def dest!: less_2_cases)
  have c: "statuses0 2 = Inr failed_state" "status failed_state = DONE"
    by (simp_all add: statuses0_def failed_state_def)
  show ?thesis
    using done_operation_settles_by_errors
            [of statuses0 2 failed_state wait_options0 "[[''code'' \<mapsto> JStr ''QUOTA_EXCEEDED'']]"]
          done_operation_settles_by_errors
            [of provider_failed 0 failed_state wait_options0 "[[''code'' \<mapsto> JStr ''QUOTA_EXCEEDED'']]"]
          a b c
    by (simp add: provider_failed_def failed_state_def)
qed

section \<open>Operations that are never done\<close>

text \<open>
  C9: a wait with a poll interval of 100 ms and a longest time of 300 ms, on an operation
  whose every fetch answers with a status that is not \<open>DONE\<close>, is rejected with a
  \<open>TimeoutError\<close>; it ends when it has been suspended for 300 ms, which is within 300 to
  400 ms; and all it has asked of the provider by then are three fetches of the status:
  nothing cancels the operation. Time is counted in the suspensions.
\<close>

theorem never_done_wait_times_out:
  assumes "\<forall>k. \<exists>s. prov k = Inr s \<and> status s \<noteq> DONE"
  shows "wait \<lparr>interval = 100, maxDuration = Some 300\<rparr> prov = Some (Rejected TimeoutError) \<and>
         (\<exists>run. run_wait \<lparr>interval = 100, maxDuration = Some 300\<rparr> prov = Some run \<and>
            outcome run = Rejected TimeoutError \<and>
            300 \<le> ended_at run \<and> ended_at run \<le> 400 \<and>
            requests run = [fetch_request, fetch_request, fetch_request])"
proof -
  let ?opts = "\<lparr>interval = 100, maxDuration = Some 300\<rparr>"
  from assms obtain s0 s1 s2 where
    s: "prov 0 = Inr s0" "status s0 \<noteq> DONE" "prov (Suc 0) = Inr s1" "status s1 \<noteq> DONE"
       "prov (Suc (Suc 0)) = Inr s2" "status s2 \<noteq> DONE"
    by metis
  have "poll_loop ?opts prov 0 0 [] = poll_loop ?opts prov (Suc 0) 100 [fetch_request]"
    using s(1,2) by (simp add: poll_loop_not_done elapsed_out_def)
  also have "\<dots> = poll_loop ?opts prov (Suc (Suc 0)) 200 [fetch_request, fetch_request]"
    using s(3,4) poll_loop_not_done [of prov "Suc 0" s1 ?opts 100 "[fetch_request]"]
    by (simp add: elapsed_out_def)
  also have "\<dots> = Some \<lparr>outcome = Rejected TimeoutError, ended_at = 300,
                         requests = [fetch_request, fetch_request, fetch_request]\<rparr>"
    using s(5,6) poll_loop_not_done [of prov "Suc (Suc 0)" s2 ?opts 200 "[fetch_request, fetch_request]"]
    by (simp add: elapsed_out_def)
  finally show ?thesis
    by (simp add: wait_def run_wait_def)
qed

theorem never_done_wait_times_out_witness:
  "wait wait_options0 never_done = Some (Rejected TimeoutError) \<and>
   (\<exists>run. run_wait wait_options0 never_done = Some run \<and>
      outcome run = Rejected TimeoutError \<and>
      300 \<le> ended_at run \<and> ended_at run \<le> 400 \<and>
      requests run = [fetch_request, fetch_request, fetch_request])"
proof -
  have "\<forall>k. \<exists>s. never_done k = Inr s \<and> status s \<noteq> DONE"
    by (simp add: never_done_def)
  from never_done_wait_times_out [OF this] show ?thesis
    by (auto simp: wait_options0_def)
qed

section \<open>exists and get\<close>

text \<open>What \<open>getMetadata\<close> gives for the transport's answer to its request.\<close>

lemma getMetadata_reply:
  "tr h \<lparr>via = ThisRequest, httpMethod = GET, uri = '''', qs = [], json = JUndefined\<rparr> = (err, resp) \<Longrightarrow>
   getMetadata self tr h =
     (case err of Some e \<Rightarrow> Inl e | None \<Rightarrow> Inr resp,
      [Request \<lparr>via = ThisRequest, httpMethod = GET, uri = '''', qs = [], json = JUndefined\<rparr>])"
  by (simp add: getMetadata_def split: option.splits)

text \<open>
  C3: \<open>exists\<close> gives \<open>false\<close> exactly when the fetch is answered with a not-found error,
  \<open>true\<close> when the fetch is answered without error, and any other error goes to the caller
  as it is. The fetch is the only thing \<open>exists\<close> does.
\<close>

theorem exists_false_exactly_on_not_found:
  assumes "tr h \<lparr>via = ThisRequest, httpMethod = GET, uri = '''', qs = [], json = JUndefined\<rparr> = (err, resp)"
  shows "(fst (exists self tr zc h) = Inr False \<longleftrightarrow> (\<exists>e. err = Some e \<and> is_not_found e)) \<and>
         (err = None \<longrightarrow> fst (exists self tr zc h) = Inr True) \<and>
         (\<forall>e. err = Some e \<and> \<not> is_not_found e \<longrightarrow> fst (exists self tr zc h) = Inl e) \<and>
         snd (exists self tr zc h) =
           [Request \<lparr>via = ThisRequest, httpMethod = GET, uri = '''', qs = [], json = JUndefined\<rparr>]"
  using assms getMetadata_reply [where tr = tr and h = h and err = err and resp = resp and self = self]
  by (cases err) (auto simp: exists_def get_def)

theorem exists_false_exactly_on_not_found_witness:
  "fst (exists autoscaler0 transport_not_found createAutoscaler0 heap0) = Inr False \<and>
   fst (exists autoscaler0 transport_ok createAutoscaler0 heap0) = Inr True \<and>
   fst (exists autoscaler0 transport_failing createAutoscaler0 heap0) = Inl error0"
  using exists_false_exactly_on_not_found
          [of transport_not_found heap0 "Some error404" None autoscaler0 createAutoscaler0]
        exists_false_exactly_on_not_found
          [of transport_ok heap0 None "Some body0" autoscaler0 createAutoscaler0]
        exists_false_exactly_on_not_found
          [of transport_failing heap0 "Some error0" None autoscaler0 createAutoscaler0]
  by (simp add: transport_not_found_def transport_ok_def transport_failing_def
        is_not_found_def error404_def error0_def)

text \<open>
  C6: for a handle made by the constructor, when the fetch says not found and
  \<open>autoCreate\<close> is set, \<open>get\<close> makes after the fetch exactly one call of the create method,
  which is the zone's \<open>createAutoscaler\<close> as the constructor bound it, for the handle's name
  and with the caller's configuration; the handle this call creates is what \<open>get\<close>
  returns, in place of the not-found error.
\<close>

theorem get_autoCreate_creates_once:
  assumes "tr h \<lparr>via = ThisRequest, httpMethod = GET, uri = '''', qs = [], json = JUndefined\<rparr> = (Some e, resp)"
    and "is_not_found e"
    and "autoCreate options"
  shows "createMethod (super (Autoscaler z n)) = ZoneCreateAutoscaler z \<and>
         snd (get (Autoscaler z n) options tr zc h) =
           [Request \<lparr>via = ThisRequest, httpMethod = GET, uri = '''', qs = [], json = JUndefined\<rparr>,
            Create (ZoneCreateAutoscaler z) n (config options)] \<and>
         (\<forall>a opn. zc z n (config options) = Inr (a, opn) \<longrightarrow>
            fst (get (Autoscaler z n) options tr zc h) = Inr a)"
  using assms
    getMetadata_reply [where tr = tr and h = h and err = "Some e" and resp = resp
                         and self = "Autoscaler z n"]
  by (auto simp: get_def create_def Autoscaler_def split: sum.splits)

theorem get_autoCreate_creates_once_witness:
  "get autoscaler0 \<lparr>autoCreate = True, config = config0\<rparr> transport_not_found createAutoscaler0 heap0 =
     (Inr autoscaler0,
      [Request \<lparr>via = ThisRequest, httpMethod = GET, uri = '''', qs = [], json = JUndefined\<rparr>,
       Create (ZoneCreateAutoscaler zone0) ''autoscaler-name'' config0])"
  using get_autoCreate_creates_once
    [of transport_not_found heap0 error404 None "\<lparr>autoCreate = True, config = config0\<rparr>"
        zone0 "''autoscaler-name''" createAutoscaler0]
  by (simp add: transport_not_found_def is_not_found_def error404_def autoscaler0_def
        createAutoscaler0_def prod_eq_iff)

end
